theory Spec2Isabelle
  imports Complex_Main "HOL-Library.Sublist"
begin

section \<open>The geolocation hook of \<^verbatim>\<open>src/hooks/use-geolocation.ts\<close>\<close>

text \<open>
  The file exports one React hook, \<^verbatim>\<open>useGeolocation\<close>. Its body is the asynchronous
  function \<^verbatim>\<open>getLocationWithFallback\<close> (lines 99 to 224), which talks to two
  collaborators of the platform, \<^verbatim>\<open>navigator.geolocation\<close> and \<^verbatim>\<open>fetch\<close>, and
  writes its result into the hook's state with \<^verbatim>\<open>setLocationData\<close>.

  The embedding is by explicit state passing. The platform is a record of the answers it
  gives; the hook is a record of the React state and of the ordered list of everything
  the function did (state updates, platform calls, debug output). An \<^verbatim>\<open>await\<close> is a
  case distinction on what the awaited promise does: resolve, reject, or never settle.
\<close>

subsection \<open>JavaScript values\<close>

text \<open>
  The values the source handles under the type \<^verbatim>\<open>any\<close>: the value caught by a
  \<^verbatim>\<open>catch\<close> clause and the body returned by \<^verbatim>\<open>response.json()\<close>. A number
  carries its numeric value; the source never computes with one, it only tests it for
  truthiness and stores it. An object is the list of its properties.
\<close>

datatype jsval =
    JUndefined
  | JNull
  | JBool bool
  | JNum real
  | JStr string
  | JArr "jsval list"
  | JObj "(string \<times> jsval) list"

text \<open>Truthiness, as \<^verbatim>\<open>&&\<close>, \<^verbatim>\<open>||\<close> and \<^verbatim>\<open>if\<close> test it.\<close>

fun truthy :: "jsval \<Rightarrow> bool" where
  "truthy JUndefined = False"
| "truthy JNull = False"
| "truthy (JBool b) = b"
| "truthy (JNum x) = (x \<noteq> 0)"
| "truthy (JStr s) = (s \<noteq> [])"
| "truthy (JArr vs) = True"
| "truthy (JObj ps) = True"

fun nullish :: "jsval \<Rightarrow> bool" where
  "nullish JUndefined = True"
| "nullish JNull = True"
| "nullish v = False"

text \<open>\<^verbatim>\<open>new Error(msg)\<close> and the \<^verbatim>\<open>TypeError\<close> of a property read on null or undefined.\<close>

definition Error :: "string \<Rightarrow> jsval" where
  "Error msg = JObj [(''name'', JStr ''Error''), (''message'', JStr msg)]"

definition TypeError :: "string \<Rightarrow> jsval" where
  "TypeError msg = JObj [(''name'', JStr ''TypeError''), (''message'', JStr msg)]"

text \<open>
  The property read \<^verbatim>\<open>v.k\<close>. On null and undefined it throws (\<open>Inl\<close>); on an object it
  gives the property or undefined. The four names the source reads (\<^verbatim>\<open>message\<close>,
  \<^verbatim>\<open>code\<close>, \<^verbatim>\<open>latitude\<close>, \<^verbatim>\<open>longitude\<close>) are no properties of a boolean, a number,
  a string or an array, so those reads give undefined.
\<close>

fun getProp :: "jsval \<Rightarrow> string \<Rightarrow> jsval + jsval" where
  "getProp JUndefined k = Inl (TypeError ''Cannot read properties of undefined'')"
| "getProp JNull k = Inl (TypeError ''Cannot read properties of null'')"
| "getProp (JObj ps) k = Inr (case map_of ps k of None \<Rightarrow> JUndefined | Some v \<Rightarrow> v)"
| "getProp v k = Inr JUndefined"

text \<open>The optional chain \<^verbatim>\<open>v?.k\<close>: undefined where \<^verbatim>\<open>v.k\<close> would throw.\<close>

definition optProp :: "jsval \<Rightarrow> string \<Rightarrow> jsval" where
  "optProp v k = (case getProp v k of Inl e \<Rightarrow> JUndefined | Inr x \<Rightarrow> x)"

subsection \<open>Promises\<close>

text \<open>What an awaited promise does. \<open>Pending\<close> is the promise that never settles.\<close>

datatype 'a outcome = Resolved 'a | Rejected jsval | Pending

subsection \<open>The data of the hook and of the platform\<close>

text \<open>
  \<^verbatim>\<open>Coordinates\<close> is imported from \<^verbatim>\<open>@/api/types\<close>; the hook builds it with the two
  fields \<^verbatim>\<open>lat\<close> and \<^verbatim>\<open>lon\<close>. The IP strategy fills them with whatever the JSON body
  holds, so the fields are JavaScript values.
\<close>

record Coordinates =
  lat :: jsval
  lon :: jsval

record GeolocationState =
  coordinates :: "Coordinates option"
  error :: "string option"
  isLoading :: bool

record PositionOptions =
  enableHighAccuracy :: bool
  timeout :: nat
  maximumAge :: nat

record GeolocationCoordinates =
  latitude :: real
  longitude :: real

record GeolocationPosition =
  coords :: GeolocationCoordinates

record Response =
  json :: "jsval outcome"

text \<open>
  The platform. \<open>geolocation\<close> is \<^verbatim>\<open>navigator.geolocation\<close>, absent on a platform
  without the capability; where present it answers \<^verbatim>\<open>getCurrentPosition\<close> for the
  options it is given. \<open>fetch\<close> answers a GET of a URL.
\<close>

record Navigator =
  geolocation :: "(PositionOptions \<Rightarrow> GeolocationPosition outcome) option"
  fetch :: "string \<Rightarrow> Response outcome"

text \<open>Everything a run does, in order.\<close>

datatype event =
    SetLocationData GeolocationState
  | GetCurrentPosition PositionOptions
  | Fetch string
  | ConsoleLog string jsval

record hook =
  locationData :: GeolocationState
  trace :: "event list"

text \<open>
  How a call of the asynchronous function ends: it returns, it throws (its promise
  rejects, and no caller handles that), or it stays suspended at an \<^verbatim>\<open>await\<close>.
\<close>

datatype completion = Settled | Threw jsval | Suspended

subsection \<open>The hook\<close>

text \<open>The argument of \<^verbatim>\<open>useState\<close>, lines 93 to 97.\<close>

definition initialState :: GeolocationState where
  "initialState = \<lparr>coordinates = None, error = None, isLoading = True\<rparr>"

definition emit :: "event \<Rightarrow> hook \<Rightarrow> hook" where
  "emit e h = h\<lparr>trace := trace h @ [e]\<rparr>"

text \<open>
  \<^verbatim>\<open>setLocationData\<close> with an updater function; a call with a plain value is the
  constant updater.
\<close>

definition setLocationData :: "(GeolocationState \<Rightarrow> GeolocationState) \<Rightarrow> hook \<Rightarrow> hook" where
  "setLocationData f h =
     (let s = f (locationData h) in emit (SetLocationData s) (h\<lparr>locationData := s\<rparr>))"

text \<open>The options of lines 115 to 117 and of lines 126 to 128, and the URL of line 136.\<close>

definition highAccuracyOptions :: PositionOptions where
  "highAccuracyOptions = \<lparr>enableHighAccuracy = True, timeout = 10000, maximumAge = 300000\<rparr>"

definition lowAccuracyOptions :: PositionOptions where
  "lowAccuracyOptions = \<lparr>enableHighAccuracy = False, timeout = 15000, maximumAge = 600000\<rparr>"

definition ipEndpoint :: string where
  "ipEndpoint = ''https://ipapi.co/json/''"

definition tryHighAccuracy ::
  "(PositionOptions \<Rightarrow> GeolocationPosition outcome) \<Rightarrow> hook \<Rightarrow> GeolocationPosition outcome \<times> hook" where
  "tryHighAccuracy g h = (g highAccuracyOptions, emit (GetCurrentPosition highAccuracyOptions) h)"

definition tryLowAccuracy ::
  "(PositionOptions \<Rightarrow> GeolocationPosition outcome) \<Rightarrow> hook \<Rightarrow> GeolocationPosition outcome \<times> hook" where
  "tryLowAccuracy g h = (g lowAccuracyOptions, emit (GetCurrentPosition lowAccuracyOptions) h)"

text \<open>
  Lines 138 to 144, the statements after the two awaits inside the \<^verbatim>\<open>try\<close> of
  \<^verbatim>\<open>tryIPGeolocation\<close>: \<open>Inl\<close> is what they throw.
\<close>

definition ipBody :: "jsval \<Rightarrow> jsval + Coordinates" where
  "ipBody data =
     (case getProp data ''latitude'' of
        Inl e \<Rightarrow> Inl e
      | Inr la \<Rightarrow>
          if truthy la then
            (case getProp data ''longitude'' of
               Inl e \<Rightarrow> Inl e
             | Inr lo \<Rightarrow>
                 if truthy lo then Inr \<lparr>lat = la, lon = lo\<rparr>
                 else Inl (Error ''Invalid IP geolocation response''))
          else Inl (Error ''Invalid IP geolocation response''))"

text \<open>
  Lines 134 to 148. Whatever is thrown inside the \<^verbatim>\<open>try\<close> is caught and replaced by
  one fixed error.
\<close>

definition ipOutcome :: "Navigator \<Rightarrow> Coordinates outcome" where
  "ipOutcome n =
     (case fetch n ipEndpoint of
        Pending \<Rightarrow> Pending
      | Rejected e \<Rightarrow> Rejected (Error ''IP geolocation failed'')
      | Resolved response \<Rightarrow>
          (case json response of
             Pending \<Rightarrow> Pending
           | Rejected e \<Rightarrow> Rejected (Error ''IP geolocation failed'')
           | Resolved data \<Rightarrow>
               (case ipBody data of
                  Inl e \<Rightarrow> Rejected (Error ''IP geolocation failed'')
                | Inr c \<Rightarrow> Resolved c)))"

definition tryIPGeolocation :: "Navigator \<Rightarrow> hook \<Rightarrow> Coordinates outcome \<times> hook" where
  "tryIPGeolocation n h = (ipOutcome n, emit (Fetch ipEndpoint) h)"

text \<open>
  The two \<^verbatim>\<open>console.log\<close> calls, lines 162 to 165 and 179 to 182. Their second
  argument reads \<^verbatim>\<open>.message\<close> of the caught value, which throws when that value is
  null or undefined.
\<close>

definition consoleLog :: "string \<Rightarrow> jsval \<Rightarrow> hook \<Rightarrow> jsval + hook" where
  "consoleLog label caught h =
     (case getProp caught ''message'' of
        Inl e \<Rightarrow> Inl e
      | Inr m \<Rightarrow> Inr (emit (ConsoleLog label m) h))"

text \<open>The state written on a position fix, lines 153 to 160 and 170 to 177.\<close>

definition positionState :: "GeolocationPosition \<Rightarrow> GeolocationState" where
  "positionState position =
     \<lparr>coordinates = Some \<lparr>lat = JNum (latitude (coords position)),
                          lon = JNum (longitude (coords position))\<rparr>,
      error = None, isLoading = False\<rparr>"

text \<open>The \<^verbatim>\<open>switch\<close> on \<^verbatim>\<open>gpsError?.code\<close>, lines 199 to 214; \<^verbatim>\<open>case\<close> compares with \<^verbatim>\<open>===\<close>.\<close>

definition errorMessage :: "jsval \<Rightarrow> string" where
  "errorMessage gpsError =
     (let code = optProp gpsError ''code'' in
      if code = JNum 1 then
        ''Location permission denied. Please enable location access in your browser settings.''
      else if code = JNum 2 then
        ''Location is currently unavailable. Please check your GPS/WiFi connection and try again.''
      else if code = JNum 3 then
        ''Location request timed out. Please try again.''
      else
        ''Unable to determine your location. Please enable location services and try again.'')"

text \<open>The handler of \<^verbatim>\<open>ipError\<close>, lines 192 to 221.\<close>

definition onIPError :: "jsval \<Rightarrow> jsval \<Rightarrow> hook \<Rightarrow> completion \<times> hook" where
  "onIPError highAccuracyError lowAccuracyError h =
     (let gpsError = (if truthy lowAccuracyError then lowAccuracyError else highAccuracyError)
      in (Settled,
          setLocationData
            (\<lambda>prev. \<lparr>coordinates = None, error = Some (errorMessage gpsError), isLoading = False\<rparr>)
            h))"

text \<open>The handler of \<^verbatim>\<open>lowAccuracyError\<close>, lines 178 to 222.\<close>

definition onLowAccuracyError :: "Navigator \<Rightarrow> jsval \<Rightarrow> jsval \<Rightarrow> hook \<Rightarrow> completion \<times> hook" where
  "onLowAccuracyError n highAccuracyError lowAccuracyError h =
     (case consoleLog ''Low accuracy failed, trying IP geolocation:'' lowAccuracyError h of
        Inl e \<Rightarrow> (Threw e, h)
      | Inr h1 \<Rightarrow>
          (case tryIPGeolocation n h1 of
             (Resolved c, h2) \<Rightarrow>
               (Settled,
                setLocationData
                  (\<lambda>prev. \<lparr>coordinates = Some c, error = None, isLoading = False\<rparr>) h2)
           | (Pending, h2) \<Rightarrow> (Suspended, h2)
           | (Rejected ipError, h2) \<Rightarrow> onIPError highAccuracyError lowAccuracyError h2))"

text \<open>The handler of \<^verbatim>\<open>highAccuracyError\<close>, lines 161 to 223.\<close>

definition onHighAccuracyError ::
  "Navigator \<Rightarrow> (PositionOptions \<Rightarrow> GeolocationPosition outcome) \<Rightarrow> jsval \<Rightarrow> hook \<Rightarrow> completion \<times> hook" where
  "onHighAccuracyError n g highAccuracyError h =
     (case consoleLog ''High accuracy failed, trying low accuracy:'' highAccuracyError h of
        Inl e \<Rightarrow> (Threw e, h)
      | Inr h1 \<Rightarrow>
          (case tryLowAccuracy g h1 of
             (Resolved position, h2) \<Rightarrow>
               (Settled, setLocationData (\<lambda>prev. positionState position) h2)
           | (Pending, h2) \<Rightarrow> (Suspended, h2)
           | (Rejected lowAccuracyError, h2) \<Rightarrow>
               onLowAccuracyError n highAccuracyError lowAccuracyError h2))"

text \<open>Lines 99 to 224.\<close>

definition getLocationWithFallback :: "Navigator \<Rightarrow> hook \<Rightarrow> completion \<times> hook" where
  "getLocationWithFallback n h =
     (let h1 = setLocationData (\<lambda>prev. prev\<lparr>isLoading := True, error := None\<rparr>) h in
      case geolocation n of
        None \<Rightarrow>
          (Settled,
           setLocationData
             (\<lambda>prev. \<lparr>coordinates = None,
                      error = Some ''Geolocation is not supported by your browser'',
                      isLoading = False\<rparr>)
             h1)
      | Some g \<Rightarrow>
          (case tryHighAccuracy g h1 of
             (Resolved position, h2) \<Rightarrow>
               (Settled, setLocationData (\<lambda>prev. positionState position) h2)
           | (Pending, h2) \<Rightarrow> (Suspended, h2)
           | (Rejected highAccuracyError, h2) \<Rightarrow> onHighAccuracyError n g highAccuracyError h2))"

text \<open>
  Lines 227 to 229, the manual trigger: it calls \<^verbatim>\<open>getLocationWithFallback\<close> and drops
  the promise. The effect of lines 232 to 234 makes the same call once the component has
  mounted, on the initial state.
\<close>

definition getLocation :: "Navigator \<Rightarrow> hook \<Rightarrow> completion \<times> hook" where
  "getLocation n h = getLocationWithFallback n h"

definition useGeolocation :: "Navigator \<Rightarrow> completion \<times> hook" where
  "useGeolocation n = getLocationWithFallback n \<lparr>locationData = initialState, trace = []\<rparr>"

subsection \<open>Reading a run\<close>

text \<open>What a run added to the trace, the platform calls among it, and the states it set.\<close>

definition newEvents :: "hook \<Rightarrow> hook \<Rightarrow> event list" where
  "newEvents h h' = drop (length (trace h)) (trace h')"

fun isRequest :: "event \<Rightarrow> bool" where
  "isRequest (GetCurrentPosition opts) = True"
| "isRequest (Fetch url) = True"
| "isRequest e = False"

definition requests :: "event list \<Rightarrow> event list" where
  "requests evs = filter isRequest evs"

fun statesSet :: "event list \<Rightarrow> GeolocationState list" where
  "statesSet [] = []"
| "statesSet (SetLocationData s # evs) = s # statesSet evs"
| "statesSet (e # evs) = statesSet evs"

text \<open>
  The state the hook's container holds after a list of events, when it held \<open>s\<close> before
  them: the last state handed to \<^verbatim>\<open>setLocationData\<close>, or \<open>s\<close> when there is none.
\<close>

fun stateAfter :: "GeolocationState \<Rightarrow> event list \<Rightarrow> GeolocationState" where
  "stateAfter s [] = s"
| "stateAfter s (SetLocationData s' # evs) = stateAfter s' evs"
| "stateAfter s (e # evs) = stateAfter s evs"

text \<open>The state between the first update of a run and the one that settles it.\<close>

definition inFlight :: "GeolocationState \<Rightarrow> GeolocationState" where
  "inFlight prev = prev\<lparr>isLoading := True, error := None\<rparr>"

text \<open>
  The hook after a run that, having set the in-flight state, added the events \<open>evs\<close> and
  left the state \<open>s\<close>.
\<close>

definition afterRun :: "hook \<Rightarrow> GeolocationState \<Rightarrow> event list \<Rightarrow> hook" where
  "afterRun h s evs =
     h\<lparr>locationData := s,
       trace := trace h @ SetLocationData (inFlight (locationData h)) # evs\<rparr>"

subsection \<open>Reachable states\<close>

text \<open>
  The states a consumer of the hook can see: the initial one, and every state that a run of
  the cascade, started in a state already seen and on any platform, hands to
  \<^verbatim>\<open>setLocationData\<close>.
\<close>

inductive reachable :: "GeolocationState \<Rightarrow> bool" where
  initial: "reachable initialState"
| update:
    "reachable s \<Longrightarrow>
     SetLocationData s' \<in> set (trace (snd (getLocationWithFallback n \<lparr>locationData = s, trace = []\<rparr>))) \<Longrightarrow>
     reachable s'"

subsection \<open>Platforms and hooks for concrete runs\<close>

text \<open>
  A position service that answers the high-accuracy request with one outcome and every
  other request with another, and a network that answers every GET with the same outcome.
\<close>

definition geolocationStub ::
  "GeolocationPosition outcome \<Rightarrow> GeolocationPosition outcome \<Rightarrow> PositionOptions \<Rightarrow>
   GeolocationPosition outcome" where
  "geolocationStub high low opts = (if enableHighAccuracy opts then high else low)"

definition fetchStub :: "Response outcome \<Rightarrow> string \<Rightarrow> Response outcome" where
  "fetchStub r url = r"

definition stubNavigator ::
  "GeolocationPosition outcome \<Rightarrow> GeolocationPosition outcome \<Rightarrow> Response outcome \<Rightarrow> Navigator" where
  "stubNavigator high low r = \<lparr>geolocation = Some (geolocationStub high low), fetch = fetchStub r\<rparr>"

definition noGeolocation :: Navigator where
  "noGeolocation = \<lparr>geolocation = None, fetch = fetchStub Pending\<rparr>"

text \<open>A \<^verbatim>\<open>GeolocationPositionError\<close>: an object with a numeric code and a message.\<close>

definition positionError :: "nat \<Rightarrow> string \<Rightarrow> jsval" where
  "positionError c msg = JObj [(''code'', JNum (real c)), (''message'', JStr msg)]"

definition jsonResponse :: "jsval \<Rightarrow> Response outcome" where
  "jsonResponse data = Resolved \<lparr>json = Resolved data\<rparr>"

definition demoPosition :: GeolocationPosition where
  "demoPosition = \<lparr>coords = \<lparr>latitude = 123 / 10, longitude = 456 / 10\<rparr>\<rparr>"

text \<open>The hook before its first run, after a run that found a position, and after one that failed.\<close>

definition freshHook :: hook where
  "freshHook = \<lparr>locationData = initialState, trace = []\<rparr>"

definition locatedHook :: hook where
  "locatedHook =
     \<lparr>locationData =
        \<lparr>coordinates = Some \<lparr>lat = JNum (123 / 10), lon = JNum (456 / 10)\<rparr>,
         error = None, isLoading = False\<rparr>,
      trace = []\<rparr>"

definition failedHook :: hook where
  "failedHook =
     \<lparr>locationData =
        \<lparr>coordinates = None,
         error = Some ''Location request timed out. Please try again.'',
         isLoading = False\<rparr>,
      trace = []\<rparr>"

section \<open>Properties\<close>

subsection \<open>Unfolding a run\<close>

lemmas cascade_defs =
  getLocationWithFallback_def onHighAccuracyError_def onLowAccuracyError_def onIPError_def
  tryHighAccuracy_def tryLowAccuracy_def tryIPGeolocation_def consoleLog_def
  setLocationData_def emit_def positionState_def inFlight_def Let_def

lemmas stub_defs =
  stubNavigator_def noGeolocation_def geolocationStub_def fetchStub_def positionError_def
  jsonResponse_def demoPosition_def freshHook_def locatedHook_def failedHook_def
  initialState_def highAccuracyOptions_def lowAccuracyOptions_def ipEndpoint_def
  ipOutcome_def ipBody_def Error_def TypeError_def optProp_def errorMessage_def
  newEvents_def requests_def getLocation_def useGeolocation_def

lemma errorMessage_cases:
  "errorMessage e \<in>
     {''Location permission denied. Please enable location access in your browser settings.'',
      ''Location is currently unavailable. Please check your GPS/WiFi connection and try again.'',
      ''Location request timed out. Please try again.'',
      ''Unable to determine your location. Please enable location services and try again.''}"
  by (simp add: errorMessage_def Let_def)

text \<open>
  The cascade in one piece: what a run returns and the hook it leaves, by what the platform
  answers.
\<close>

lemma run_unfold:
  "getLocationWithFallback n h =
    (case geolocation n of
       None \<Rightarrow>
         (Settled,
          afterRun h
            \<lparr>coordinates = None,
             error = Some ''Geolocation is not supported by your browser'',
             isLoading = False\<rparr>
            [SetLocationData
               \<lparr>coordinates = None,
                error = Some ''Geolocation is not supported by your browser'',
                isLoading = False\<rparr>])
     | Some g \<Rightarrow>
        (case g highAccuracyOptions of
           Resolved p \<Rightarrow>
             (Settled,
              afterRun h (positionState p)
                [GetCurrentPosition highAccuracyOptions, SetLocationData (positionState p)])
         | Pending \<Rightarrow>
             (Suspended,
              afterRun h (inFlight (locationData h)) [GetCurrentPosition highAccuracyOptions])
         | Rejected e1 \<Rightarrow>
            (case getProp e1 ''message'' of
               Inl t \<Rightarrow>
                 (Threw t,
                  afterRun h (inFlight (locationData h))
                    [GetCurrentPosition highAccuracyOptions])
             | Inr m1 \<Rightarrow>
                (case g lowAccuracyOptions of
                   Resolved p \<Rightarrow>
                     (Settled,
                      afterRun h (positionState p)
                        [GetCurrentPosition highAccuracyOptions,
                         ConsoleLog ''High accuracy failed, trying low accuracy:'' m1,
                         GetCurrentPosition lowAccuracyOptions,
                         SetLocationData (positionState p)])
                 | Pending \<Rightarrow>
                     (Suspended,
                      afterRun h (inFlight (locationData h))
                        [GetCurrentPosition highAccuracyOptions,
                         ConsoleLog ''High accuracy failed, trying low accuracy:'' m1,
                         GetCurrentPosition lowAccuracyOptions])
                 | Rejected e2 \<Rightarrow>
                    (case getProp e2 ''message'' of
                       Inl t \<Rightarrow>
                         (Threw t,
                          afterRun h (inFlight (locationData h))
                            [GetCurrentPosition highAccuracyOptions,
                             ConsoleLog ''High accuracy failed, trying low accuracy:'' m1,
                             GetCurrentPosition lowAccuracyOptions])
                     | Inr m2 \<Rightarrow>
                        (case ipOutcome n of
                           Resolved c \<Rightarrow>
                             (Settled,
                              afterRun h
                                \<lparr>coordinates = Some c, error = None, isLoading = False\<rparr>
                                [GetCurrentPosition highAccuracyOptions,
                                 ConsoleLog ''High accuracy failed, trying low accuracy:'' m1,
                                 GetCurrentPosition lowAccuracyOptions,
                                 ConsoleLog ''Low accuracy failed, trying IP geolocation:'' m2,
                                 Fetch ipEndpoint,
                                 SetLocationData
                                   \<lparr>coordinates = Some c, error = None, isLoading = False\<rparr>])
                         | Pending \<Rightarrow>
                             (Suspended,
                              afterRun h (inFlight (locationData h))
                                [GetCurrentPosition highAccuracyOptions,
                                 ConsoleLog ''High accuracy failed, trying low accuracy:'' m1,
                                 GetCurrentPosition lowAccuracyOptions,
                                 ConsoleLog ''Low accuracy failed, trying IP geolocation:'' m2,
                                 Fetch ipEndpoint])
                         | Rejected e3 \<Rightarrow>
                             (Settled,
                              afterRun h
                                \<lparr>coordinates = None,
                                 error = Some (errorMessage (if truthy e2 then e2 else e1)),
                                 isLoading = False\<rparr>
                                [GetCurrentPosition highAccuracyOptions,
                                 ConsoleLog ''High accuracy failed, trying low accuracy:'' m1,
                                 GetCurrentPosition lowAccuracyOptions,
                                 ConsoleLog ''Low accuracy failed, trying IP geolocation:'' m2,
                                 Fetch ipEndpoint,
                                 SetLocationData
                                   \<lparr>coordinates = None,
                                    error = Some (errorMessage (if truthy e2 then e2 else e1)),
                                    isLoading = False\<rparr>])))))))"
  by (simp add: cascade_defs afterRun_def split: option.split outcome.split sum.split)

lemma newEvents_afterRun [simp]:
  "newEvents h (afterRun h s evs) = SetLocationData (inFlight (locationData h)) # evs"
  by (simp add: newEvents_def afterRun_def)

lemma locationData_afterRun [simp]: "locationData (afterRun h s evs) = s"
  by (simp add: afterRun_def)

lemma trace_afterRun [simp]:
  "trace (afterRun h s evs) = trace h @ SetLocationData (inFlight (locationData h)) # evs"
  by (simp add: afterRun_def)

lemma getProp_nullish: "nullish v \<Longrightarrow> \<exists>e. getProp v k = Inl e"
  by (cases v) simp_all

lemma getProp_not_nullish: "\<not> nullish v \<Longrightarrow> \<exists>x. getProp v k = Inr x"
  by (cases v) simp_all

text \<open>The run in which strategy 1 finds a position.\<close>

lemma high_accuracy_run:
  assumes "geolocation n = Some g"
    and "g highAccuracyOptions = Resolved position"
  shows "getLocationWithFallback n h =
           (Settled,
            afterRun h (positionState position)
              [GetCurrentPosition highAccuracyOptions,
               SetLocationData (positionState position)])"
  using assms by (simp add: run_unfold)

text \<open>
  The runs in which every strategy that is tried rejects. A rejection value that is null
  or undefined stops the run at the debug output of its handler: the function throws, the
  next strategy is not tried and the state stays the in-flight one.
\<close>

lemma all_reject_run:
  assumes "geolocation n = Some g"
    and "g highAccuracyOptions = Rejected e1"
    and "g lowAccuracyOptions = Rejected e2"
    and "ipOutcome n = Rejected e3"
  shows "getLocationWithFallback n h =
    (case getProp e1 ''message'' of
       Inl t \<Rightarrow>
         (Threw t,
          afterRun h (inFlight (locationData h)) [GetCurrentPosition highAccuracyOptions])
     | Inr m1 \<Rightarrow>
         (case getProp e2 ''message'' of
            Inl t \<Rightarrow>
              (Threw t,
               afterRun h (inFlight (locationData h))
                 [GetCurrentPosition highAccuracyOptions,
                  ConsoleLog ''High accuracy failed, trying low accuracy:'' m1,
                  GetCurrentPosition lowAccuracyOptions])
          | Inr m2 \<Rightarrow>
              (Settled,
               afterRun h
                 \<lparr>coordinates = None,
                  error = Some (errorMessage (if truthy e2 then e2 else e1)),
                  isLoading = False\<rparr>
                 [GetCurrentPosition highAccuracyOptions,
                  ConsoleLog ''High accuracy failed, trying low accuracy:'' m1,
                  GetCurrentPosition lowAccuracyOptions,
                  ConsoleLog ''Low accuracy failed, trying IP geolocation:'' m2,
                  Fetch ipEndpoint,
                  SetLocationData
                    \<lparr>coordinates = None,
                     error = Some (errorMessage (if truthy e2 then e2 else e1)),
                     isLoading = False\<rparr>])))"
  using assms by (simp add: run_unfold split: sum.split)

text \<open>Among such runs, the ones that reach the third strategy end in the final failure.\<close>

lemma all_attempted_settles:
  assumes run: "getLocationWithFallback n h = (c, h')"
    and env: "geolocation n = Some g" "g highAccuracyOptions = Rejected e1"
      "g lowAccuracyOptions = Rejected e2" "ipOutcome n = Rejected e3"
    and attempted: "requests (newEvents h h') =
      [GetCurrentPosition highAccuracyOptions, GetCurrentPosition lowAccuracyOptions,
       Fetch ipEndpoint]"
  shows "c = Settled \<and>
         locationData h' =
           \<lparr>coordinates = None,
            error = Some (errorMessage (if truthy e2 then e2 else e1)),
            isLoading = False\<rparr>"
proof -
  note full = all_reject_run [OF env, of h]
  show ?thesis
  proof (cases "getProp e1 ''message''")
    case (Inl t)
    with full run attempted show ?thesis
      by (auto simp: requests_def)
  next
    case m1: (Inr m1)
    show ?thesis
    proof (cases "getProp e2 ''message''")
      case (Inl t)
      with m1 full run attempted show ?thesis
        by (auto simp: requests_def)
    next
      case (Inr m2)
      with m1 full run show ?thesis
        by auto
    qed
  qed
qed

text \<open>
  The platform rejects a position request with a \<^verbatim>\<open>GeolocationPositionError\<close>, an
  object. With objects as the two rejection values the run always reaches the third
  strategy, and the error of strategy 2 chooses the message.
\<close>

lemma error_objects_settle:
  assumes "geolocation n = Some g"
    and "g highAccuracyOptions = Rejected (JObj o1)"
    and "g lowAccuracyOptions = Rejected (JObj o2)"
    and "ipOutcome n = Rejected e3"
  shows "fst (getLocationWithFallback n h) = Settled
       \<and> locationData (snd (getLocationWithFallback n h)) =
           \<lparr>coordinates = None, error = Some (errorMessage (JObj o2)), isLoading = False\<rparr>
       \<and> requests (newEvents h (snd (getLocationWithFallback n h))) =
           [GetCurrentPosition highAccuracyOptions, GetCurrentPosition lowAccuracyOptions,
            Fetch ipEndpoint]"
  using all_reject_run [OF assms, of h]
  by (simp add: requests_def)

lemma nullish_rejection_aborts:
  assumes "geolocation n = Some g"
    and "g highAccuracyOptions = Rejected e1"
    and "nullish e1"
  shows "\<exists>t. getLocationWithFallback n h =
           (Threw t,
            afterRun h (inFlight (locationData h)) [GetCurrentPosition highAccuracyOptions])"
  using assms getProp_nullish [of e1 "''message''"]
  by (auto simp: run_unfold)

lemma nullish_low_accuracy_rejection_aborts:
  assumes "geolocation n = Some g"
    and "g highAccuracyOptions = Rejected e1"
    and "getProp e1 ''message'' = Inr m1"
    and "g lowAccuracyOptions = Rejected e2"
    and "nullish e2"
  shows "\<exists>t. getLocationWithFallback n h =
           (Threw t,
            afterRun h (inFlight (locationData h))
              [GetCurrentPosition highAccuracyOptions,
               ConsoleLog ''High accuracy failed, trying low accuracy:'' m1,
               GetCurrentPosition lowAccuracyOptions])"
  using assms getProp_nullish [of e2 "''message''"]
  by (auto simp: run_unfold)

text \<open>
  The events of a run: the in-flight update first, then events that are no state update,
  then, when the run settles and only then, the update that settles it.
\<close>

lemma run_shape:
  assumes "getLocationWithFallback n h = (c, h')"
  shows "if c = Settled
         then newEvents h h' =
                SetLocationData (inFlight (locationData h)) # butlast (tl (newEvents h h'))
                  @ [SetLocationData (locationData h')]
              \<and> statesSet (butlast (tl (newEvents h h'))) = []
         else newEvents h h' =
                SetLocationData (inFlight (locationData h)) # tl (newEvents h h') @ []
              \<and> statesSet (tl (newEvents h h')) = []
              \<and> locationData h' = inFlight (locationData h)"
  using assms
  by (auto simp: run_unfold
      split: option.splits outcome.splits sum.splits)

lemma stateAfter_no_updates: "statesSet evs = [] \<Longrightarrow> stateAfter s evs = s"
  by (induction s evs rule: stateAfter.induct) simp_all

lemma statesSet_take_no_updates: "statesSet evs = [] \<Longrightarrow> statesSet (take k evs) = []"
proof (induction evs arbitrary: k)
  case Nil
  show ?case by simp
next
  case (Cons e evs)
  show ?case
  proof (cases k)
    case 0
    then show ?thesis by simp
  next
    case (Suc j)
    with Cons show ?thesis
      by (cases e) simp_all
  qed
qed

lemma stateAfter_window:
  assumes "statesSet rest = []" and "1 \<le> k" and "k \<le> Suc (length rest)"
  shows "stateAfter s (take k (SetLocationData s1 # rest @ last_events)) = s1"
proof -
  from assms(2) obtain j where k: "k = Suc j"
    by (cases k) simp_all
  with assms(3) have "j \<le> length rest"
    by simp
  then have "take j (rest @ last_events) = take j rest"
    by simp
  with k have "stateAfter s (take k (SetLocationData s1 # rest @ last_events))
      = stateAfter s1 (take j rest)"
    by (simp del: take_append)
  also have "\<dots> = s1"
    using statesSet_take_no_updates [OF assms(1)] by (rule stateAfter_no_updates)
  finally show ?thesis .
qed

subsection \<open>The settled state\<close>

text \<open>
  C1. When a run returns, whether with a position or with the final failure, the state it
  leaves has \<open>isLoading\<close> false and exactly one of \<open>coordinates\<close> and \<open>error\<close>
  set. On success, which is a run in which one of the three strategies resolved, it is the
  coordinates that strategy gave, and no error. On failure, which is a run on a platform
  without the capability or one in which all three strategies rejected, it is the error
  text of that failure, and no coordinates.
\<close>

theorem settled_exclusive:
  assumes "getLocationWithFallback n h = (Settled, h')"
  shows "isLoading (locationData h') = False
       \<and> ((\<exists>c. coordinates (locationData h') = Some c
              \<and> error (locationData h') = None
              \<and> (\<exists>g. geolocation n = Some g
                   \<and> ((\<exists>p. g highAccuracyOptions = Resolved p
                          \<and> c = \<lparr>lat = JNum (latitude (coords p)),
                                 lon = JNum (longitude (coords p))\<rparr>)
                      \<or> (\<exists>e1 p. g highAccuracyOptions = Rejected e1
                          \<and> g lowAccuracyOptions = Resolved p
                          \<and> c = \<lparr>lat = JNum (latitude (coords p)),
                                 lon = JNum (longitude (coords p))\<rparr>)
                      \<or> (\<exists>e1 e2. g highAccuracyOptions = Rejected e1
                          \<and> g lowAccuracyOptions = Rejected e2
                          \<and> ipOutcome n = Resolved c))))
          \<or> (coordinates (locationData h') = None
              \<and> (\<exists>m. error (locationData h') = Some m)
              \<and> ((geolocation n = None
                    \<and> error (locationData h') =
                        Some ''Geolocation is not supported by your browser'')
                 \<or> (\<exists>g e1 e2 e3. geolocation n = Some g
                       \<and> g highAccuracyOptions = Rejected e1
                       \<and> g lowAccuracyOptions = Rejected e2
                       \<and> ipOutcome n = Rejected e3
                       \<and> error (locationData h') =
                           Some (errorMessage (if truthy e2 then e2 else e1))))))"
  using assms
  by (auto simp: run_unfold positionState_def
      split: option.splits outcome.splits sum.splits)

theorem settled_exclusive_witness:
  "getLocationWithFallback
     (stubNavigator (Rejected (positionError 3 ''Timeout expired''))
        (Resolved demoPosition) Pending)
     freshHook =
   (Settled,
    \<lparr>locationData =
       \<lparr>coordinates = Some \<lparr>lat = JNum (123 / 10), lon = JNum (456 / 10)\<rparr>,
        error = None, isLoading = False\<rparr>,
     trace =
       [SetLocationData \<lparr>coordinates = None, error = None, isLoading = True\<rparr>,
        GetCurrentPosition \<lparr>enableHighAccuracy = True, timeout = 10000, maximumAge = 300000\<rparr>,
        ConsoleLog ''High accuracy failed, trying low accuracy:'' (JStr ''Timeout expired''),
        GetCurrentPosition \<lparr>enableHighAccuracy = False, timeout = 15000, maximumAge = 600000\<rparr>,
        SetLocationData
          \<lparr>coordinates = Some \<lparr>lat = JNum (123 / 10), lon = JNum (456 / 10)\<rparr>,
           error = None, isLoading = False\<rparr>]\<rparr>)
   \<and> getLocationWithFallback
     (stubNavigator (Rejected (positionError 3 ''Timeout expired''))
        (Rejected (positionError 2 ''Position unavailable''))
        (Rejected (TypeError ''Failed to fetch'')))
     locatedHook =
   (Settled,
    \<lparr>locationData =
       \<lparr>coordinates = None,
        error = Some
          ''Location is currently unavailable. Please check your GPS/WiFi connection and try again.'',
        isLoading = False\<rparr>,
     trace =
       [SetLocationData
          \<lparr>coordinates = Some \<lparr>lat = JNum (123 / 10), lon = JNum (456 / 10)\<rparr>,
           error = None, isLoading = True\<rparr>,
        GetCurrentPosition \<lparr>enableHighAccuracy = True, timeout = 10000, maximumAge = 300000\<rparr>,
        ConsoleLog ''High accuracy failed, trying low accuracy:'' (JStr ''Timeout expired''),
        GetCurrentPosition \<lparr>enableHighAccuracy = False, timeout = 15000, maximumAge = 600000\<rparr>,
        ConsoleLog ''Low accuracy failed, trying IP geolocation:'' (JStr ''Position unavailable''),
        Fetch ''https://ipapi.co/json/'',
        SetLocationData
          \<lparr>coordinates = None,
           error = Some
             ''Location is currently unavailable. Please check your GPS/WiFi connection and try again.'',
           isLoading = False\<rparr>]\<rparr>)"
proof -
  let ?found = "getLocationWithFallback
     (stubNavigator (Rejected (positionError 3 ''Timeout expired''))
        (Resolved demoPosition) Pending)
     freshHook"
  let ?failed = "getLocationWithFallback
     (stubNavigator (Rejected (positionError 3 ''Timeout expired''))
        (Rejected (positionError 2 ''Position unavailable''))
        (Rejected (TypeError ''Failed to fetch'')))
     locatedHook"
  have found: "?found = (Settled, snd ?found)"
    by (simp add: cascade_defs stub_defs)
  have failed: "?failed = (Settled, snd ?failed)"
    by (simp add: cascade_defs stub_defs)
  from settled_exclusive [OF found]
  have "isLoading (locationData (snd ?found)) = False"
    by blast
  moreover from settled_exclusive [OF failed]
  have "isLoading (locationData (snd ?failed)) = False"
    by blast
  ultimately show ?thesis
    by (simp add: cascade_defs stub_defs)
qed

text \<open>
  C6. On a platform without \<^verbatim>\<open>navigator.geolocation\<close> the run settles at once: the
  state is the fixed not-supported error with no coordinates and \<open>isLoading\<close> false, and
  the run made no platform call, neither a position request nor an HTTP request.
\<close>

theorem no_capability:
  assumes "geolocation n = None"
  shows "getLocationWithFallback n h =
           (Settled,
            h\<lparr>locationData :=
                 \<lparr>coordinates = None,
                  error = Some ''Geolocation is not supported by your browser'',
                  isLoading = False\<rparr>,
               trace := trace h @
                 [SetLocationData (inFlight (locationData h)),
                  SetLocationData
                    \<lparr>coordinates = None,
                     error = Some ''Geolocation is not supported by your browser'',
                     isLoading = False\<rparr>]\<rparr>)
         \<and> requests (newEvents h (snd (getLocationWithFallback n h))) = []"
  using assms
  by (simp add: run_unfold requests_def)

theorem no_capability_witness:
  "geolocation noGeolocation = None
   \<and> getLocationWithFallback noGeolocation freshHook =
       (Settled,
        \<lparr>locationData =
           \<lparr>coordinates = None,
            error = Some ''Geolocation is not supported by your browser'',
            isLoading = False\<rparr>,
         trace =
           [SetLocationData \<lparr>coordinates = None, error = None, isLoading = True\<rparr>,
            SetLocationData
              \<lparr>coordinates = None,
               error = Some ''Geolocation is not supported by your browser'',
               isLoading = False\<rparr>]\<rparr>)"
proof -
  have absent: "geolocation noGeolocation = None"
    by (simp add: noGeolocation_def)
  from no_capability [OF absent, of freshHook] absent show ?thesis
    by (simp add: freshHook_def initialState_def inFlight_def)
qed

subsection \<open>The first strategy\<close>

text \<open>
  C2. When the high-accuracy request resolves with a position, the run settles with the
  latitude and longitude of that position as coordinates, no error and \<open>isLoading\<close>
  false, and the position request with the high-accuracy options is the only platform
  call of the run: neither the low-accuracy request nor the HTTP request is made.
\<close>

theorem high_accuracy_success:
  assumes "geolocation n = Some g"
    and "g highAccuracyOptions = Resolved position"
  shows "fst (getLocationWithFallback n h) = Settled
       \<and> locationData (snd (getLocationWithFallback n h)) =
           \<lparr>coordinates = Some \<lparr>lat = JNum (latitude (coords position)),
                               lon = JNum (longitude (coords position))\<rparr>,
            error = None, isLoading = False\<rparr>
       \<and> requests (newEvents h (snd (getLocationWithFallback n h))) =
           [GetCurrentPosition highAccuracyOptions]"
  using high_accuracy_run [OF assms, of h]
  by (simp add: positionState_def requests_def)

theorem high_accuracy_success_witness:
  "geolocationStub (Resolved demoPosition) (Rejected JNull) highAccuracyOptions
     = Resolved demoPosition
   \<and> locationData (snd (getLocationWithFallback
        (stubNavigator (Resolved demoPosition) (Rejected JNull) Pending) failedHook)) =
       \<lparr>coordinates = Some \<lparr>lat = JNum (123 / 10), lon = JNum (456 / 10)\<rparr>,
        error = None, isLoading = False\<rparr>
   \<and> requests (newEvents failedHook (snd (getLocationWithFallback
        (stubNavigator (Resolved demoPosition) (Rejected JNull) Pending) failedHook))) =
       [GetCurrentPosition \<lparr>enableHighAccuracy = True, timeout = 10000, maximumAge = 300000\<rparr>]"
proof -
  have cap: "geolocation (stubNavigator (Resolved demoPosition) (Rejected JNull) Pending)
      = Some (geolocationStub (Resolved demoPosition) (Rejected JNull))"
    by (simp add: stubNavigator_def)
  have pos: "geolocationStub (Resolved demoPosition) (Rejected JNull) highAccuracyOptions
      = Resolved demoPosition"
    by (simp add: geolocationStub_def highAccuracyOptions_def)
  from high_accuracy_success [OF cap pos, of failedHook] pos show ?thesis
    by (simp add: demoPosition_def highAccuracyOptions_def)
qed

subsection \<open>The final failure\<close>

text \<open>
  C3. When all three strategies are tried and each one rejects, the run settles with no
  coordinates and with the message chosen by the numeric code of the most relevant GPS
  error, which is the error of strategy 2 where that value is truthy and the error of
  strategy 1 otherwise: code 1 gives the permission-denied text, code 2 the
  position-unavailable text, code 3 the timed-out text, and any other code or none the
  generic text. Where strategy 2 left an error, its code alone decides, whatever the code
  of strategy 1.
\<close>

theorem final_failure_message:
  assumes "getLocationWithFallback n h = (c, h')"
    and "geolocation n = Some g"
    and "g highAccuracyOptions = Rejected highAccuracyError"
    and "g lowAccuracyOptions = Rejected lowAccuracyError"
    and "ipOutcome n = Rejected ipError"
    and "requests (newEvents h h') =
      [GetCurrentPosition highAccuracyOptions, GetCurrentPosition lowAccuracyOptions,
       Fetch ipEndpoint]"
  shows "c = Settled
       \<and> locationData h' =
           \<lparr>coordinates = None,
            error = Some
              (let code = optProp (if truthy lowAccuracyError then lowAccuracyError
                                   else highAccuracyError) ''code''
               in if code = JNum 1 then
                    ''Location permission denied. Please enable location access in your browser settings.''
                  else if code = JNum 2 then
                    ''Location is currently unavailable. Please check your GPS/WiFi connection and try again.''
                  else if code = JNum 3 then
                    ''Location request timed out. Please try again.''
                  else
                    ''Unable to determine your location. Please enable location services and try again.''),
            isLoading = False\<rparr>
       \<and> (truthy lowAccuracyError \<longrightarrow>
            error (locationData h') = Some (errorMessage lowAccuracyError))"
  using all_attempted_settles [OF assms]
  by (simp add: errorMessage_def)

theorem final_failure_message_witness:
  "requests (newEvents freshHook (snd (getLocationWithFallback
      (stubNavigator (Rejected (positionError 3 ''Timeout expired''))
         (Rejected (positionError 1 ''User denied Geolocation''))
         (Rejected (TypeError ''Failed to fetch'')))
      freshHook))) =
     [GetCurrentPosition highAccuracyOptions, GetCurrentPosition lowAccuracyOptions,
      Fetch ipEndpoint]
   \<and> fst (getLocationWithFallback
      (stubNavigator (Rejected (positionError 3 ''Timeout expired''))
         (Rejected (positionError 1 ''User denied Geolocation''))
         (Rejected (TypeError ''Failed to fetch'')))
      freshHook) = Settled
   \<and> locationData (snd (getLocationWithFallback
      (stubNavigator (Rejected (positionError 3 ''Timeout expired''))
         (Rejected (positionError 1 ''User denied Geolocation''))
         (Rejected (TypeError ''Failed to fetch'')))
      freshHook)) =
     \<lparr>coordinates = None,
      error = Some
        ''Location permission denied. Please enable location access in your browser settings.'',
      isLoading = False\<rparr>"
proof -
  let ?e1 = "positionError 3 ''Timeout expired''"
  let ?e2 = "positionError 1 ''User denied Geolocation''"
  let ?n = "stubNavigator (Rejected ?e1) (Rejected ?e2) (Rejected (TypeError ''Failed to fetch''))"
  let ?run = "getLocationWithFallback ?n freshHook"
  have run: "?run = (fst ?run, snd ?run)"
    by simp
  have cap: "geolocation ?n = Some (geolocationStub (Rejected ?e1) (Rejected ?e2))"
    by (simp add: stubNavigator_def)
  have high: "geolocationStub (Rejected ?e1) (Rejected ?e2) highAccuracyOptions = Rejected ?e1"
    by (simp add: geolocationStub_def highAccuracyOptions_def)
  have low: "geolocationStub (Rejected ?e1) (Rejected ?e2) lowAccuracyOptions = Rejected ?e2"
    by (simp add: geolocationStub_def lowAccuracyOptions_def)
  have ip: "ipOutcome ?n = Rejected (Error ''IP geolocation failed'')"
    by (simp add: ipOutcome_def stubNavigator_def fetchStub_def)
  have attempted: "requests (newEvents freshHook (snd ?run)) =
      [GetCurrentPosition highAccuracyOptions, GetCurrentPosition lowAccuracyOptions,
       Fetch ipEndpoint]"
    by (simp add: cascade_defs stub_defs)
  from final_failure_message [OF run cap high low ip attempted] attempted
  show ?thesis
    by (simp add: positionError_def optProp_def)
qed

text \<open>
  Where the rejection value of strategy 2 is falsy and the run still reaches the third
  strategy, the handler of the final failure falls back to the error of strategy 1. The
  only such values are \<^verbatim>\<open>false\<close>, \<^verbatim>\<open>0\<close> and the empty string.
\<close>

lemma falsy_low_accuracy_error_falls_back:
  assumes "getLocationWithFallback n h = (c, h')"
    and "geolocation n = Some g"
    and "g highAccuracyOptions = Rejected highAccuracyError"
    and "g lowAccuracyOptions = Rejected lowAccuracyError"
    and "ipOutcome n = Rejected ipError"
    and "requests (newEvents h h') =
      [GetCurrentPosition highAccuracyOptions, GetCurrentPosition lowAccuracyOptions,
       Fetch ipEndpoint]"
    and "\<not> truthy lowAccuracyError"
  shows "c = Settled
       \<and> error (locationData h') = Some (errorMessage highAccuracyError)
       \<and> error (locationData h') = Some
           (if optProp highAccuracyError ''code'' = JNum 1 then
              ''Location permission denied. Please enable location access in your browser settings.''
            else if optProp highAccuracyError ''code'' = JNum 2 then
              ''Location is currently unavailable. Please check your GPS/WiFi connection and try again.''
            else if optProp highAccuracyError ''code'' = JNum 3 then
              ''Location request timed out. Please try again.''
            else
              ''Unable to determine your location. Please enable location services and try again.'')"
  using all_attempted_settles [OF assms(1-6)] assms(7)
  by (simp add: errorMessage_def)


subsection \<open>The third strategy\<close>

text \<open>What \<^verbatim>\<open>tryIPGeolocation\<close> accepts: an object whose two fields are both truthy.\<close>

lemma ipBody_truthy_fields:
  assumes "map_of ps ''latitude'' = Some la" and "map_of ps ''longitude'' = Some lo"
    and "truthy la" and "truthy lo"
  shows "ipBody (JObj ps) = Inr \<lparr>lat = la, lon = lo\<rparr>"
  using assms by (simp add: ipBody_def)

lemma ipBody_absent_field:
  assumes "map_of ps ''latitude'' = None \<or> map_of ps ''longitude'' = None"
  shows "\<exists>e. ipBody (JObj ps) = Inl e"
  using assms by (auto simp: ipBody_def)

lemma ipBody_falsy_field:
  assumes "map_of ps ''latitude'' = Some la" and "map_of ps ''longitude'' = Some lo"
    and "\<not> truthy la \<or> \<not> truthy lo"
  shows "ipBody (JObj ps) = Inl (Error ''Invalid IP geolocation response'')"
  using assms by (auto simp: ipBody_def)

lemma ipOutcome_request_fails:
  assumes "fetch n ipEndpoint = Rejected e
         \<or> (\<exists>r e'. fetch n ipEndpoint = Resolved r \<and> json r = Rejected e')"
  shows "ipOutcome n = Rejected (Error ''IP geolocation failed'')"
  using assms by (auto simp: ipOutcome_def)

lemma ipOutcome_body:
  assumes "fetch n ipEndpoint = Resolved r" and "json r = Resolved data"
  shows "ipOutcome n =
           (case ipBody data of
              Inl e \<Rightarrow> Rejected (Error ''IP geolocation failed'')
            | Inr c \<Rightarrow> Resolved c)"
  using assms by (simp add: ipOutcome_def)

text \<open>
  C4. The body \<^verbatim>\<open>{latitude: 0, longitude: 45.6}\<close> has both numeric fields, and the
  third strategy rejects it: line 138 tests the fields for truthiness, and the number 0 is
  falsy. After two failed position requests the run ends in the final failure, with no
  coordinates.
\<close>

theorem ip_zero_latitude_rejected:
  "ipBody (JObj [(''latitude'', JNum 0), (''longitude'', JNum (456 / 10))]) =
     Inl (Error ''Invalid IP geolocation response'')
   \<and> ipOutcome
       (stubNavigator (Rejected (positionError 3 ''Timeout expired''))
          (Rejected (positionError 3 ''Timeout expired''))
          (jsonResponse (JObj [(''latitude'', JNum 0), (''longitude'', JNum (456 / 10))]))) =
     Rejected (Error ''IP geolocation failed'')
   \<and> getLocationWithFallback
       (stubNavigator (Rejected (positionError 3 ''Timeout expired''))
          (Rejected (positionError 3 ''Timeout expired''))
          (jsonResponse (JObj [(''latitude'', JNum 0), (''longitude'', JNum (456 / 10))])))
       freshHook =
     (Settled,
      \<lparr>locationData =
         \<lparr>coordinates = None,
          error = Some ''Location request timed out. Please try again.'',
          isLoading = False\<rparr>,
       trace =
         [SetLocationData \<lparr>coordinates = None, error = None, isLoading = True\<rparr>,
          GetCurrentPosition \<lparr>enableHighAccuracy = True, timeout = 10000, maximumAge = 300000\<rparr>,
          ConsoleLog ''High accuracy failed, trying low accuracy:'' (JStr ''Timeout expired''),
          GetCurrentPosition \<lparr>enableHighAccuracy = False, timeout = 15000, maximumAge = 600000\<rparr>,
          ConsoleLog ''Low accuracy failed, trying IP geolocation:'' (JStr ''Timeout expired''),
          Fetch ''https://ipapi.co/json/'',
          SetLocationData
            \<lparr>coordinates = None,
             error = Some ''Location request timed out. Please try again.'',
             isLoading = False\<rparr>]\<rparr>)"
  by (simp add: cascade_defs stub_defs)

text \<open>The same run on the body of the specification's example, for comparison.\<close>

lemma ip_example_accepted:
  "locationData (snd (getLocationWithFallback
       (stubNavigator (Rejected (positionError 3 ''Timeout expired''))
          (Rejected (positionError 3 ''Timeout expired''))
          (jsonResponse (JObj [(''latitude'', JNum (123 / 10)), (''longitude'', JNum (456 / 10))])))
       freshHook)) =
     \<lparr>coordinates = Some \<lparr>lat = JNum (123 / 10), lon = JNum (456 / 10)\<rparr>,
      error = None, isLoading = False\<rparr>"
  by (simp add: cascade_defs stub_defs)

subsection \<open>The state in flight\<close>

text \<open>
  C5, amended. A run first sets the in-flight state, which is the state it started from
  with \<open>isLoading\<close> true and \<open>error\<close> cleared; the coordinates are the ones the
  hook already held (none on the first run and after a failed one, the last position
  after a successful one). From that update on, the run hands no state to
  \<^verbatim>\<open>setLocationData\<close> until the update that settles it, which is its last step; a run
  that does not settle hands over none. So at every point of the run after its first
  update and before its settling one, a container that no other run has written holds the
  in-flight state.
\<close>

theorem in_flight_state:
  assumes "getLocationWithFallback n h = (c, h')"
  shows "take 1 (newEvents h h') = [SetLocationData (inFlight (locationData h))]
       \<and> statesSet (newEvents h h') =
           (if c = Settled then [inFlight (locationData h), locationData h']
            else [inFlight (locationData h)])
       \<and> (if c = Settled then last (newEvents h h') = SetLocationData (locationData h')
           else locationData h' = inFlight (locationData h))
       \<and> (\<forall>k. 1 \<le> k \<longrightarrow>
              k < length (newEvents h h') + (if c = Settled then 0 else 1) \<longrightarrow>
              stateAfter (locationData h) (take k (newEvents h h')) =
                inFlight (locationData h))
       \<and> error (inFlight (locationData h)) = None
       \<and> isLoading (inFlight (locationData h)) = True
       \<and> coordinates (inFlight (locationData h)) = coordinates (locationData h)"
proof -
  have updates:
    "take 1 (newEvents h h') = [SetLocationData (inFlight (locationData h))]
     \<and> statesSet (newEvents h h') =
         (if c = Settled then [inFlight (locationData h), locationData h']
          else [inFlight (locationData h)])
     \<and> (if c = Settled then last (newEvents h h') = SetLocationData (locationData h')
         else locationData h' = inFlight (locationData h))"
    using assms
    by (auto simp: run_unfold split: option.splits outcome.splits sum.splits)
  have window:
    "stateAfter (locationData h) (take k (newEvents h h')) = inFlight (locationData h)"
    if "1 \<le> k" and "k < length (newEvents h h') + (if c = Settled then 0 else 1)" for k
  proof (cases "c = Settled")
    case True
    define rest where "rest = butlast (tl (newEvents h h'))"
    from run_shape [OF assms] True
    have evs: "newEvents h h' =
        SetLocationData (inFlight (locationData h)) # rest @ [SetLocationData (locationData h')]"
      and none: "statesSet rest = []"
      by (simp_all add: rest_def)
    from evs have "length (newEvents h h') = Suc (Suc (length rest))"
      by simp
    with that(2) True have "k \<le> Suc (length rest)"
      by simp
    from stateAfter_window [OF none that(1) this] evs show ?thesis
      by simp
  next
    case False
    define rest where "rest = tl (newEvents h h')"
    from run_shape [OF assms] False
    have evs: "newEvents h h' = SetLocationData (inFlight (locationData h)) # rest @ []"
      and none: "statesSet rest = []"
      by (simp_all add: rest_def)
    from evs have "length (newEvents h h') = Suc (length rest)"
      by simp
    with that(2) False have "k \<le> Suc (length rest)"
      by simp
    from stateAfter_window [OF none that(1) this, where last_events = "[]"] evs show ?thesis
      by simp
  qed
  from updates window show ?thesis
    by (simp add: inFlight_def)
qed

theorem in_flight_state_witness:
  "getLocationWithFallback (stubNavigator (Rejected (positionError 2 ''Position unavailable''))
       Pending Pending) failedHook =
     (Suspended,
      \<lparr>locationData = \<lparr>coordinates = None, error = None, isLoading = True\<rparr>,
       trace =
         [SetLocationData \<lparr>coordinates = None, error = None, isLoading = True\<rparr>,
          GetCurrentPosition \<lparr>enableHighAccuracy = True, timeout = 10000, maximumAge = 300000\<rparr>,
          ConsoleLog ''High accuracy failed, trying low accuracy:'' (JStr ''Position unavailable''),
          GetCurrentPosition \<lparr>enableHighAccuracy = False, timeout = 15000, maximumAge = 600000\<rparr>]\<rparr>)
   \<and> stateAfter (locationData failedHook)
        [SetLocationData \<lparr>coordinates = None, error = None, isLoading = True\<rparr>,
         GetCurrentPosition \<lparr>enableHighAccuracy = True, timeout = 10000, maximumAge = 300000\<rparr>,
         ConsoleLog ''High accuracy failed, trying low accuracy:'' (JStr ''Position unavailable'')]
       = \<lparr>coordinates = None, error = None, isLoading = True\<rparr>"
proof -
  let ?n = "stubNavigator (Rejected (positionError 2 ''Position unavailable'')) Pending Pending"
  let ?h' = "\<lparr>locationData = \<lparr>coordinates = None, error = None, isLoading = True\<rparr>,
       trace =
         [SetLocationData \<lparr>coordinates = None, error = None, isLoading = True\<rparr>,
          GetCurrentPosition \<lparr>enableHighAccuracy = True, timeout = 10000, maximumAge = 300000\<rparr>,
          ConsoleLog ''High accuracy failed, trying low accuracy:'' (JStr ''Position unavailable''),
          GetCurrentPosition \<lparr>enableHighAccuracy = False, timeout = 15000, maximumAge = 600000\<rparr>]\<rparr>"
  have run: "getLocationWithFallback ?n failedHook = (Suspended, ?h')"
    by (simp add: cascade_defs stub_defs)
  from in_flight_state [OF run]
  have "stateAfter (locationData failedHook) (take 3 (newEvents failedHook ?h'))
      = inFlight (locationData failedHook)"
    by (simp add: newEvents_def failedHook_def)
  with run show ?thesis
    by (simp add: newEvents_def failedHook_def inFlight_def)
qed

text \<open>
  The claim as the specification words it fails in two ways. A refresh started from a state
  that holds a position keeps that position while the first request is pending. And the
  manual trigger has no guard against a run in flight: while the first run is suspended, a
  second one that settles writes its error and \<open>isLoading\<close> false into the same
  container.
\<close>

theorem in_flight_coordinates_counterexample:
  "fst (getLocation (stubNavigator Pending Pending Pending) locatedHook) = Suspended
   \<and> locationData (snd (getLocation (stubNavigator Pending Pending Pending) locatedHook)) =
       \<lparr>coordinates = Some \<lparr>lat = JNum (123 / 10), lon = JNum (456 / 10)\<rparr>,
        error = None, isLoading = True\<rparr>
   \<and> coordinates (locationData
        (snd (getLocation (stubNavigator Pending Pending Pending) locatedHook))) \<noteq> None
   \<and> fst (useGeolocation (stubNavigator Pending Pending Pending)) = Suspended
   \<and> getLocation
        (stubNavigator (Rejected (positionError 1 ''User denied Geolocation''))
           (Rejected (positionError 1 ''User denied Geolocation''))
           (Rejected (TypeError ''Failed to fetch'')))
        (snd (useGeolocation (stubNavigator Pending Pending Pending))) =
      (Settled,
       \<lparr>locationData =
          \<lparr>coordinates = None,
           error = Some
             ''Location permission denied. Please enable location access in your browser settings.'',
           isLoading = False\<rparr>,
        trace =
          [SetLocationData \<lparr>coordinates = None, error = None, isLoading = True\<rparr>,
           GetCurrentPosition \<lparr>enableHighAccuracy = True, timeout = 10000, maximumAge = 300000\<rparr>,
           SetLocationData \<lparr>coordinates = None, error = None, isLoading = True\<rparr>,
           GetCurrentPosition \<lparr>enableHighAccuracy = True, timeout = 10000, maximumAge = 300000\<rparr>,
           ConsoleLog ''High accuracy failed, trying low accuracy:''
             (JStr ''User denied Geolocation''),
           GetCurrentPosition \<lparr>enableHighAccuracy = False, timeout = 15000, maximumAge = 600000\<rparr>,
           ConsoleLog ''Low accuracy failed, trying IP geolocation:''
             (JStr ''User denied Geolocation''),
           Fetch ''https://ipapi.co/json/'',
           SetLocationData
             \<lparr>coordinates = None,
              error = Some
                ''Location permission denied. Please enable location access in your browser settings.'',
              isLoading = False\<rparr>]\<rparr>)"
  by (simp add: cascade_defs stub_defs)

subsection \<open>The requests\<close>

lemma requests_prefix:
  "prefix (requests (newEvents h (snd (getLocationWithFallback n h))))
     [GetCurrentPosition highAccuracyOptions, GetCurrentPosition lowAccuracyOptions,
      Fetch ipEndpoint]"
  by (simp add: run_unfold requests_def
      split: option.split outcome.split sum.split)

text \<open>
  C8. The platform calls of a run are, in this order and as far as the run gets: the
  position request with high accuracy on, timeout 10000 and maximum age 300000; the
  position request with high accuracy off, timeout 15000 and maximum age 600000; one GET
  of the IP endpoint, which takes the URL and nothing else.
\<close>

theorem canonical_requests:
  "prefix (requests (newEvents h (snd (getLocationWithFallback n h))))
     [GetCurrentPosition \<lparr>enableHighAccuracy = True, timeout = 10000, maximumAge = 300000\<rparr>,
      GetCurrentPosition \<lparr>enableHighAccuracy = False, timeout = 15000, maximumAge = 600000\<rparr>,
      Fetch ''https://ipapi.co/json/'']"
  using requests_prefix [of h n]
  by (simp only: highAccuracyOptions_def lowAccuracyOptions_def ipEndpoint_def)

theorem canonical_requests_witness:
  "requests (newEvents freshHook (snd (getLocationWithFallback
      (stubNavigator (Rejected (positionError 3 ''Timeout expired''))
         (Rejected (positionError 2 ''Position unavailable''))
         (Rejected (TypeError ''Failed to fetch'')))
      freshHook))) =
     [GetCurrentPosition \<lparr>enableHighAccuracy = True, timeout = 10000, maximumAge = 300000\<rparr>,
      GetCurrentPosition \<lparr>enableHighAccuracy = False, timeout = 15000, maximumAge = 600000\<rparr>,
      Fetch ''https://ipapi.co/json/'']"
proof -
  let ?n = "stubNavigator (Rejected (positionError 3 ''Timeout expired''))
         (Rejected (positionError 2 ''Position unavailable''))
         (Rejected (TypeError ''Failed to fetch''))"
  have "requests (newEvents freshHook (snd (getLocationWithFallback ?n freshHook))) =
     [GetCurrentPosition \<lparr>enableHighAccuracy = True, timeout = 10000, maximumAge = 300000\<rparr>,
      GetCurrentPosition \<lparr>enableHighAccuracy = False, timeout = 15000, maximumAge = 600000\<rparr>,
      Fetch ''https://ipapi.co/json/'']"
    by (simp add: cascade_defs stub_defs)
  with canonical_requests [of freshHook ?n] show ?thesis
    by simp
qed

subsection \<open>The manual trigger\<close>

text \<open>
  C9. The manual trigger \<^verbatim>\<open>getLocation\<close> runs the same cascade as the automatic call
  on mount, from the state the hook holds. The first thing the run does, before any
  request to the platform, is to set the state it started from with \<open>isLoading\<close> true
  and \<open>error\<close> cleared.
\<close>

theorem manual_trigger:
  "getLocation n h = getLocationWithFallback n h
   \<and> useGeolocation n = getLocation n \<lparr>locationData = initialState, trace = []\<rparr>
   \<and> take 1 (newEvents h (snd (getLocation n h))) =
       [SetLocationData ((locationData h)\<lparr>isLoading := True, error := None\<rparr>)]"
  by (simp add: getLocation_def useGeolocation_def run_unfold inFlight_def
      split: option.split outcome.split sum.split)

theorem manual_trigger_witness:
  "take 1 (newEvents failedHook (snd (getLocation
      (stubNavigator (Resolved demoPosition) Pending Pending) failedHook))) =
     [SetLocationData \<lparr>coordinates = None, error = None, isLoading = True\<rparr>]"
proof -
  from manual_trigger [of "stubNavigator (Resolved demoPosition) Pending Pending" failedHook]
  have "take 1 (newEvents failedHook (snd (getLocation
      (stubNavigator (Resolved demoPosition) Pending Pending) failedHook))) =
     [SetLocationData ((locationData failedHook)\<lparr>isLoading := True, error := None\<rparr>)]"
    by blast
  then show ?thesis
    by (simp add: failedHook_def)
qed

subsection \<open>The error texts\<close>

lemma states_set_errors:
  assumes "SetLocationData s' \<in> set (trace (snd (getLocationWithFallback n h)))"
  shows "SetLocationData s' \<in> set (trace h) \<or> error s' = None
       \<or> error s' = Some ''Geolocation is not supported by your browser''
       \<or> (\<exists>e. error s' = Some (errorMessage e))"
  using assms
  by (auto simp: run_unfold inFlight_def positionState_def
      split: option.splits outcome.splits sum.splits)

text \<open>
  C10. In every reachable state the error is either absent or one of five fixed texts:
  the not-supported text, the permission-denied text, the position-unavailable text, the
  timed-out text, or the generic text. No text of a strategy's own error or of the IP
  service gets into the state.
\<close>

theorem error_is_fixed_text:
  assumes "reachable s"
  shows "error s \<in>
     {None,
      Some ''Geolocation is not supported by your browser'',
      Some ''Location permission denied. Please enable location access in your browser settings.'',
      Some ''Location is currently unavailable. Please check your GPS/WiFi connection and try again.'',
      Some ''Location request timed out. Please try again.'',
      Some ''Unable to determine your location. Please enable location services and try again.''}"
  using assms
proof (induction rule: reachable.induct)
  case initial
  show ?case by (simp add: initialState_def)
next
  case (update s s' n)
  from states_set_errors [OF update.hyps(2)]
  consider "error s' = None"
    | "error s' = Some ''Geolocation is not supported by your browser''"
    | e where "error s' = Some (errorMessage e)"
    by auto
  then show ?case
  proof cases
    case 3
    with errorMessage_cases [of e] show ?thesis by auto
  qed simp_all
qed

theorem error_is_fixed_text_witness:
  "reachable \<lparr>coordinates = None,
              error = Some ''Geolocation is not supported by your browser'',
              isLoading = False\<rparr>
   \<and> error \<lparr>coordinates = None,
             error = Some ''Geolocation is not supported by your browser'',
             isLoading = False\<rparr>
       = Some ''Geolocation is not supported by your browser''"
proof -
  let ?s = "\<lparr>coordinates = None,
              error = Some ''Geolocation is not supported by your browser'',
              isLoading = False\<rparr>"
  have "SetLocationData ?s \<in> set (trace (snd (getLocationWithFallback noGeolocation
          \<lparr>locationData = initialState, trace = []\<rparr>)))"
    by (simp add: cascade_defs stub_defs)
  with reachable.initial have r: "reachable ?s"
    by (rule reachable.update)
  from error_is_fixed_text [OF r] r show ?thesis
    by simp
qed

end
